theory Spec2Isabelle
  imports Complex_Main
begin

section \<open>Data model of the integrity report\<close>

text \<open>
  Python's \<open>Decimal\<close> and \<open>float\<close> values are modelled as exact rationals: the
  28-digit rounding of the decimal context and the binary rounding of floats are outside
  the model. Python's \<open>int\<close> is \<open>int\<close>; \<open>None\<close> is \<open>None\<close> of an option type.
\<close>

type_synonym decimal = rat

text \<open>
  Modelled from the spec: the record type \<open>CanonicalEquity\<close> of the external package
  \<open>equity_aggregator\<close> is not part of the sources. Section 3 of the specification gives
  it two attribute groups, identity (name, symbol and five identifier codes) and financials
  (31 fields), every field independently nullable; the attribute names are those of
  \<open>identity_fields\<close> and \<open>financial_fields\<close> in \<open>reports/fields.py\<close>.
\<close>

record EquityIdentity =
  name :: "string option"
  symbol :: "string option"
  share_class_figi :: "string option"
  isin :: "string option"
  cusip :: "string option"
  cik :: "string option"
  lei :: "string option"

record EquityFinancials =
  mics :: "string list option"
  currency :: "string option"
  last_price :: "decimal option"
  market_cap :: "decimal option"
  fifty_two_week_min :: "decimal option"
  fifty_two_week_max :: "decimal option"
  dividend_yield :: "decimal option"
  market_volume :: "decimal option"
  held_insiders :: "decimal option"
  held_institutions :: "decimal option"
  short_interest :: "decimal option"
  share_float :: "decimal option"
  shares_outstanding :: "decimal option"
  revenue_per_share :: "decimal option"
  profit_margin :: "decimal option"
  gross_margin :: "decimal option"
  operating_margin :: "decimal option"
  free_cash_flow :: "decimal option"
  operating_cash_flow :: "decimal option"
  return_on_equity :: "decimal option"
  return_on_assets :: "decimal option"
  performance_1_year :: "decimal option"
  total_debt :: "decimal option"
  revenue :: "decimal option"
  ebitda :: "decimal option"
  trailing_pe :: "decimal option"
  price_to_book :: "decimal option"
  trailing_eps :: "decimal option"
  analyst_rating :: "string option"
  industry :: "string option"
  sector :: "string option"

record CanonicalEquity =
  identity :: EquityIdentity
  financials :: EquityFinancials
  snapshot_date :: "string option"


text \<open>
  A value read through \<open>getattr\<close>: the attribute groups hold strings, decimals and (for
  the venue codes) lists of strings.
\<close>

datatype pyval = VStr string | VDec decimal | VList "string list"

definition identity_attrs :: "(string \<times> (EquityIdentity \<Rightarrow> pyval option)) list" where
  "identity_attrs =
    [(''name'', \<lambda>i. map_option VStr (name i)),
     (''symbol'', \<lambda>i. map_option VStr (symbol i)),
     (''share_class_figi'', \<lambda>i. map_option VStr (share_class_figi i)),
     (''isin'', \<lambda>i. map_option VStr (isin i)),
     (''cusip'', \<lambda>i. map_option VStr (cusip i)),
     (''cik'', \<lambda>i. map_option VStr (cik i)),
     (''lei'', \<lambda>i. map_option VStr (lei i))]"

definition financials_attrs :: "(string \<times> (EquityFinancials \<Rightarrow> pyval option)) list" where
  "financials_attrs =
    [(''mics'', \<lambda>f. map_option VList (mics f)),
     (''currency'', \<lambda>f. map_option VStr (currency f)),
     (''last_price'', \<lambda>f. map_option VDec (last_price f)),
     (''market_cap'', \<lambda>f. map_option VDec (market_cap f)),
     (''fifty_two_week_min'', \<lambda>f. map_option VDec (fifty_two_week_min f)),
     (''fifty_two_week_max'', \<lambda>f. map_option VDec (fifty_two_week_max f)),
     (''dividend_yield'', \<lambda>f. map_option VDec (dividend_yield f)),
     (''market_volume'', \<lambda>f. map_option VDec (market_volume f)),
     (''held_insiders'', \<lambda>f. map_option VDec (held_insiders f)),
     (''held_institutions'', \<lambda>f. map_option VDec (held_institutions f)),
     (''short_interest'', \<lambda>f. map_option VDec (short_interest f)),
     (''share_float'', \<lambda>f. map_option VDec (share_float f)),
     (''shares_outstanding'', \<lambda>f. map_option VDec (shares_outstanding f)),
     (''revenue_per_share'', \<lambda>f. map_option VDec (revenue_per_share f)),
     (''profit_margin'', \<lambda>f. map_option VDec (profit_margin f)),
     (''gross_margin'', \<lambda>f. map_option VDec (gross_margin f)),
     (''operating_margin'', \<lambda>f. map_option VDec (operating_margin f)),
     (''free_cash_flow'', \<lambda>f. map_option VDec (free_cash_flow f)),
     (''operating_cash_flow'', \<lambda>f. map_option VDec (operating_cash_flow f)),
     (''return_on_equity'', \<lambda>f. map_option VDec (return_on_equity f)),
     (''return_on_assets'', \<lambda>f. map_option VDec (return_on_assets f)),
     (''performance_1_year'', \<lambda>f. map_option VDec (performance_1_year f)),
     (''total_debt'', \<lambda>f. map_option VDec (total_debt f)),
     (''revenue'', \<lambda>f. map_option VDec (revenue f)),
     (''ebitda'', \<lambda>f. map_option VDec (ebitda f)),
     (''trailing_pe'', \<lambda>f. map_option VDec (trailing_pe f)),
     (''price_to_book'', \<lambda>f. map_option VDec (price_to_book f)),
     (''trailing_eps'', \<lambda>f. map_option VDec (trailing_eps f)),
     (''analyst_rating'', \<lambda>f. map_option VStr (analyst_rating f)),
     (''industry'', \<lambda>f. map_option VStr (industry f)),
     (''sector'', \<lambda>f. map_option VStr (sector f))]"

text \<open>
  \<open>getattr(obj, attr, None)\<close> on an attribute group: the attribute's value, and
  \<open>None\<close> both for a null attribute and for a name the group does not have.
\<close>

definition getattr_identity :: "EquityIdentity \<Rightarrow> string \<Rightarrow> pyval option" where
  "getattr_identity i attr =
     (case map_of identity_attrs attr of None \<Rightarrow> None | Some g \<Rightarrow> g i)"

definition getattr_financials :: "EquityFinancials \<Rightarrow> string \<Rightarrow> pyval option" where
  "getattr_financials f attr =
     (case map_of financials_attrs attr of None \<Rightarrow> None | Some g \<Rightarrow> g f)"

text \<open>
  \<open>getattr(getattr(eq, group, None), attr, None)\<close>: the groups of an equity are
  \<open>identity\<close> and \<open>financials\<close>; any other group name yields \<open>None\<close>, and
  \<open>getattr(None, attr, None)\<close> is \<open>None\<close>.
\<close>

definition getattr_group :: "CanonicalEquity \<Rightarrow> string \<Rightarrow> string \<Rightarrow> pyval option" where
  "getattr_group eq grp attr =
     (if grp = ''identity'' then getattr_identity (identity eq) attr
      else if grp = ''financials'' then getattr_financials (financials eq) attr
      else None)"

subsection \<open>reports/fields.py\<close>

definition identity_fields :: "(string \<times> string) list" where
  "identity_fields =
    [(''name'', ''Name''),
     (''symbol'', ''Symbol''),
     (''share_class_figi'', ''FIGI''),
     (''isin'', ''ISIN''),
     (''cusip'', ''CUSIP''),
     (''cik'', ''CIK''),
     (''lei'', ''LEI'')]"

definition financial_fields :: "(string \<times> string) list" where
  "financial_fields =
    [(''mics'', ''MICs''),
     (''currency'', ''Currency''),
     (''last_price'', ''Last Price''),
     (''market_cap'', ''Market Cap''),
     (''fifty_two_week_min'', ''52W Min''),
     (''fifty_two_week_max'', ''52W Max''),
     (''dividend_yield'', ''Dividend Yield''),
     (''market_volume'', ''Market Volume''),
     (''held_insiders'', ''Held Insiders''),
     (''held_institutions'', ''Held Institutions''),
     (''short_interest'', ''Short Interest''),
     (''share_float'', ''Share Float''),
     (''shares_outstanding'', ''Shares Outstanding''),
     (''revenue_per_share'', ''Revenue/Share''),
     (''profit_margin'', ''Profit Margin''),
     (''gross_margin'', ''Gross Margin''),
     (''operating_margin'', ''Operating Margin''),
     (''free_cash_flow'', ''Free Cash Flow''),
     (''operating_cash_flow'', ''Operating Cash Flow''),
     (''return_on_equity'', ''ROE''),
     (''return_on_assets'', ''ROA''),
     (''performance_1_year'', ''1Y Performance''),
     (''total_debt'', ''Total Debt''),
     (''revenue'', ''Revenue''),
     (''ebitda'', ''EBITDA''),
     (''trailing_pe'', ''Trailing P/E''),
     (''price_to_book'', ''Price/Book''),
     (''trailing_eps'', ''Trailing EPS''),
     (''analyst_rating'', ''Analyst Rating''),
     (''industry'', ''Industry''),
     (''sector'', ''Sector'')]"

definition heatmap_fields :: "(string \<times> string) list" where
  "heatmap_fields =
     (let excluded = {''industry'', ''sector'', ''currency''}
      in filter (\<lambda>(attr, label). attr \<notin> excluded) financial_fields)"

definition has_field :: "CanonicalEquity \<Rightarrow> string \<Rightarrow> bool" where
  "has_field equity attr = (getattr_financials (financials equity) attr \<noteq> None)"

subsection \<open>reports/models.py\<close>

record FieldCoverage =
  label :: string
  count :: int
  total :: int

record ConsistencyFinding =
  description :: string
  count :: int
  total :: int

subsection \<open>reports/checks.py\<close>

definition finding ::
  "string \<Rightarrow> CanonicalEquity list \<Rightarrow> int \<Rightarrow> (CanonicalEquity \<Rightarrow> bool) \<Rightarrow> ConsistencyFinding" where
  "finding desc equities tot predicate =
     (let cnt = (\<Sum>eq\<leftarrow>filter predicate equities. 1)
      in \<lparr>description = desc, count = cnt, total = tot\<rparr>)"

definition profit_exceeds_gross :: "CanonicalEquity \<Rightarrow> bool" where
  "profit_exceeds_gross equity =
     (let profit = profit_margin (financials equity);
          gross = gross_margin (financials equity)
      in profit \<noteq> None \<and> gross \<noteq> None \<and> the profit > the gross)"

definition operating_exceeds_gross :: "CanonicalEquity \<Rightarrow> bool" where
  "operating_exceeds_gross equity =
     (let operating = operating_margin (financials equity);
          gross = gross_margin (financials equity)
      in operating \<noteq> None \<and> gross \<noteq> None \<and> the operating > the gross)"

definition has_extreme_pe :: "CanonicalEquity \<Rightarrow> bool" where
  "has_extreme_pe equity =
     (let pe_threshold = 1000;
          pe = trailing_pe (financials equity)
      in pe \<noteq> None \<and> \<bar>the pe\<bar> > pe_threshold)"

definition has_inverted_range :: "CanonicalEquity \<Rightarrow> bool" where
  "has_inverted_range equity =
     (let min_val = fifty_two_week_min (financials equity);
          max_val = fifty_two_week_max (financials equity)
      in min_val \<noteq> None \<and> max_val \<noteq> None \<and> the min_val > the max_val)"

definition price_outside_range :: "CanonicalEquity \<Rightarrow> bool" where
  "price_outside_range equity =
     (let price = last_price (financials equity);
          min_val = fifty_two_week_min (financials equity);
          max_val = fifty_two_week_max (financials equity)
      in if price = None \<or> min_val = None \<or> max_val = None then False
         else the price < the min_val \<or> the price > the max_val * 1.05)"

definition holdings_exceed :: "CanonicalEquity \<Rightarrow> bool" where
  "holdings_exceed equity =
     (let insiders = held_insiders (financials equity);
          institutions = held_institutions (financials equity)
      in if insiders = None \<or> institutions = None then False
         else the insiders + the institutions > 1.05)"

definition has_extreme_return :: "CanonicalEquity \<Rightarrow> bool" where
  "has_extreme_return equity =
     (let threshold = 5;
          roe = return_on_equity (financials equity);
          roa = return_on_assets (financials equity)
      in if roe \<noteq> None \<and> \<bar>the roe\<bar> > threshold then True
         else roa \<noteq> None \<and> \<bar>the roa\<bar> > threshold)"

definition extreme_dividend_yield :: "CanonicalEquity \<Rightarrow> bool" where
  "extreme_dividend_yield eq =
     (dividend_yield (financials eq) \<noteq> None \<and> the (dividend_yield (financials eq)) > 1)"


definition run_cross_field_checks :: "CanonicalEquity list \<Rightarrow> ConsistencyFinding list" where
  "run_cross_field_checks equities =
     (let tot = int (length equities)
      in [finding ''Price recorded without market cap'' equities tot
            (\<lambda>eq. has_field eq ''last_price'' \<and> \<not> has_field eq ''market_cap''),
          finding ''Market cap recorded without price'' equities tot
            (\<lambda>eq. has_field eq ''market_cap'' \<and> \<not> has_field eq ''last_price''),
          finding ''Price and market cap both missing'' equities tot
            (\<lambda>eq. \<not> has_field eq ''last_price'' \<and> \<not> has_field eq ''market_cap''),
          finding ''Partial 52-week range'' equities tot
            (\<lambda>eq. has_field eq ''fifty_two_week_min'' \<noteq> has_field eq ''fifty_two_week_max'')])"

definition run_ratio_checks :: "CanonicalEquity list \<Rightarrow> ConsistencyFinding list" where
  "run_ratio_checks equities =
     (let tot = int (length equities)
      in [finding ''Profit margin exceeds gross margin'' equities tot profit_exceeds_gross,
          finding ''Operating margin exceeds gross margin'' equities tot operating_exceeds_gross,
          finding ''Trailing P/E without EPS'' equities tot
            (\<lambda>eq. has_field eq ''trailing_pe'' \<and> \<not> has_field eq ''trailing_eps''),
          finding ''Revenue/share without revenue'' equities tot
            (\<lambda>eq. has_field eq ''revenue_per_share'' \<and> \<not> has_field eq ''revenue''),
          finding ''Price/book without price'' equities tot
            (\<lambda>eq. has_field eq ''price_to_book'' \<and> \<not> has_field eq ''last_price'')])"

text \<open>
  The plus-minus sign of two descriptions in the source is written \<open>+-\<close> here.
\<close>

definition run_plausibility_checks :: "CanonicalEquity list \<Rightarrow> ConsistencyFinding list" where
  "run_plausibility_checks equities =
     (let tot = int (length equities)
      in [finding ''52-week min exceeds max'' equities tot has_inverted_range,
          finding ''Price outside 52-week range'' equities tot price_outside_range,
          finding ''Extreme dividend yield (>100%)'' equities tot extreme_dividend_yield,
          finding ''Extreme trailing P/E (+-1000)'' equities tot has_extreme_pe,
          finding ''Holdings exceed 100%'' equities tot holdings_exceed,
          finding ''Extreme ROE or ROA (+-500%)'' equities tot has_extreme_return])"

subsection \<open>reports/data_provider.py: coverage\<close>

datatype py_error =
  ValueError | TypeError | OverflowError | IndexError | KeyError | AttributeError
  | StatisticsError | RequestError | HTTPStatusError | JSONDecodeError

definition count_populated :: "CanonicalEquity list \<Rightarrow> string \<Rightarrow> string \<Rightarrow> int" where
  "count_populated equities grp attr =
     (\<Sum>eq\<leftarrow>filter (\<lambda>eq. getattr_group eq grp attr \<noteq> None) equities. 1)"

definition compute_coverage ::
  "CanonicalEquity list \<Rightarrow> string \<Rightarrow> (string \<times> string) list \<Rightarrow> FieldCoverage list" where
  "compute_coverage equities grp flds =
     (let tot = int (length equities)
      in map (\<lambda>(attr, lbl).
           \<lparr>label = lbl, count = count_populated equities grp attr, total = tot\<rparr>) flds)"

definition field_coverage_pct :: "CanonicalEquity list \<Rightarrow> string \<Rightarrow> int \<Rightarrow> rat" where
  "field_coverage_pct equities attr tot =
     (if tot = 0 then 0
      else of_int (\<Sum>eq\<leftarrow>filter (\<lambda>eq. has_field eq attr) equities. 1) / of_int tot * 100)"

definition sector_coverage_row :: "CanonicalEquity list \<Rightarrow> (string \<times> string) list \<Rightarrow> rat list" where
  "sector_coverage_row equities flds =
     (let tot = int (length equities)
      in map (\<lambda>(attr, _). field_coverage_pct equities attr tot) flds)"

subsection \<open>reports/renderers.py: derived percentages\<close>

text \<open>
  The \<open>Coverage\<close> column of \<open>_build_coverage_dataframe\<close> and the \<open>Affected\<close> column of
  \<open>_build_consistency_dataframe\<close>: \<open>(count / total * 100) if total else 0\<close>.
\<close>

definition coverage_column :: "FieldCoverage \<Rightarrow> rat" where
  "coverage_column fc =
     (if FieldCoverage.total fc \<noteq> 0
      then of_int (FieldCoverage.count fc) / of_int (FieldCoverage.total fc) * 100 else 0)"

definition affected_column :: "ConsistencyFinding \<Rightarrow> rat" where
  "affected_column f =
     (if ConsistencyFinding.total f \<noteq> 0
      then of_int (ConsistencyFinding.count f) / of_int (ConsistencyFinding.total f) * 100 else 0)"

definition overall_coverage :: "FieldCoverage list \<Rightarrow> rat" where
  "overall_coverage coverage =
     (let total_count = (\<Sum>fc\<leftarrow>coverage. FieldCoverage.count fc);
          total_possible = (\<Sum>fc\<leftarrow>coverage. FieldCoverage.total fc)
      in if total_possible = 0 then 0
         else of_int total_count / of_int total_possible * 100)"


subsection \<open>reports/data_provider.py: sector heatmap\<close>

text \<open>
  The field \<open>fields\<close> of \<open>SectorFieldCoverage\<close> is written \<open>fields'\<close>, since the
  record package reserves the name.
\<close>

record SectorFieldCoverage =
  sectors :: "string list"
  fields' :: "string list"
  percentages :: "rat list list"

text \<open>\<open>_mean\<close> of the data provider.\<close>

definition mean' :: "rat list \<Rightarrow> rat" where
  "mean' vals = (if vals = [] then 0 else sum_list vals / of_nat (length vals))"

text \<open>
  A Python \<open>dict\<close> keeps its keys in insertion order, so the groups are an association
  list; \<open>grouped.setdefault(k, []).append(v)\<close> appends to the group of an existing key
  and adds a new key at the end.
\<close>

fun setdefault_append :: "'k \<Rightarrow> 'v \<Rightarrow> ('k \<times> 'v list) list \<Rightarrow> ('k \<times> 'v list) list" where
  "setdefault_append k v [] = [(k, [v])]"
| "setdefault_append k v ((k', vs) # rest) =
     (if k' = k then (k', vs @ [v]) # rest else (k', vs) # setdefault_append k v rest)"

definition group_by_sector :: "CanonicalEquity list \<Rightarrow> (string \<times> CanonicalEquity list) list" where
  "group_by_sector equities =
     foldl (\<lambda>grouped eq.
              case sector (financials eq) of
                None \<Rightarrow> grouped
              | Some s \<Rightarrow> setdefault_append s eq grouped) [] equities"

text \<open>Indexing a sequence with a non-negative index raises \<open>IndexError\<close> out of range.\<close>

definition subscript :: "'a list \<Rightarrow> nat \<Rightarrow> py_error + 'a" where
  "subscript xs i = (if i < length xs then Inr (xs ! i) else Inl IndexError)"

text \<open>A comprehension over a body that may raise stops at the first exception.\<close>

fun map_raising :: "('a \<Rightarrow> py_error + 'b) \<Rightarrow> 'a list \<Rightarrow> py_error + 'b list" where
  "map_raising f [] = Inr []"
| "map_raising f (x # xs) =
     (case f x of
        Inl e \<Rightarrow> Inl e
      | Inr y \<Rightarrow> (case map_raising f xs of Inl e \<Rightarrow> Inl e | Inr ys \<Rightarrow> Inr (y # ys)))"

text \<open>
  \<open>sorted(xs, key=f)\<close> is a stable sort, as \<open>sort_key\<close> is; with \<open>reverse=True\<close> the
  list is reversed, sorted stably and reversed again, which keeps equal keys in their
  original order.
\<close>

definition sorted_reverse :: "('a \<Rightarrow> 'k::linorder) \<Rightarrow> 'a list \<Rightarrow> 'a list" where
  "sorted_reverse f xs = rev (sort_key f (rev xs))"

definition rank_columns_by_coverage :: "rat list list \<Rightarrow> py_error + nat list" where
  "rank_columns_by_coverage rows =
     (if rows = [] then Inr []
      else
        let num_cols = length (hd rows) in
        case map_raising
               (\<lambda>c. case map_raising (\<lambda>row. subscript row c) rows of
                      Inl e \<Rightarrow> Inl e
                    | Inr col \<Rightarrow> Inr (sum_list col / of_nat (length rows)))
               [0..<num_cols] of
          Inl e \<Rightarrow> Inl e
        | Inr col_means \<Rightarrow>
            Inr (map fst (sorted_reverse snd (enumerate 0 col_means))))"

definition load_sector_field_coverage :: "CanonicalEquity list \<Rightarrow> py_error + SectorFieldCoverage" where
  "load_sector_field_coverage equities =
     (let grouped = group_by_sector equities;
          flds = heatmap_fields;
          sector_rows = map (\<lambda>(s, members). (s, sector_coverage_row members flds)) grouped;
          ranked = sort_key (\<lambda>p. mean' (snd p)) sector_rows
      in case rank_columns_by_coverage (map snd ranked) of
           Inl e \<Rightarrow> Inl e
         | Inr col_order \<Rightarrow>
             (case map_raising (\<lambda>i. subscript flds i) col_order of
                Inl e \<Rightarrow> Inl e
              | Inr picked \<Rightarrow>
                  (case map_raising (\<lambda>(_, row). map_raising (\<lambda>i. subscript row i) col_order)
                          ranked of
                     Inl e \<Rightarrow> Inl e
                   | Inr pcts \<Rightarrow>
                       Inr \<lparr>sectors = map fst ranked,
                            fields' = map snd picked,
                            percentages = pcts\<rparr>)))"

subsection \<open>reports/data_provider.py: distributions\<close>

record MarketCapDistribution =
  count :: int
  median :: rat
  mean :: rat
  "values" :: "rat list"

record CompletenessDistribution =
  count :: int
  median :: rat
  mean :: rat
  "values" :: "int list"

text \<open>
  \<open>statistics.median\<close> and \<open>statistics.mean\<close> raise \<open>StatisticsError\<close> on empty data.
\<close>

definition statistics_median :: "rat list \<Rightarrow> py_error + rat" where
  "statistics_median xs =
     (let data = sort xs; n = length data
      in if n = 0 then Inl StatisticsError
         else if n mod 2 = 1 then Inr (data ! (n div 2))
         else Inr ((data ! (n div 2 - 1) + data ! (n div 2)) / 2))"

definition statistics_mean :: "rat list \<Rightarrow> py_error + rat" where
  "statistics_mean xs =
     (if xs = [] then Inl StatisticsError else Inr (sum_list xs / of_nat (length xs)))"

definition extract_market_caps :: "CanonicalEquity list \<Rightarrow> rat list" where
  "extract_market_caps equities =
     map (\<lambda>eq. the (market_cap (financials eq)))
       (filter (\<lambda>eq. market_cap (financials eq) \<noteq> None \<and> the (market_cap (financials eq)) > 0)
          equities)"

definition load_market_cap_distribution :: "CanonicalEquity list \<Rightarrow> py_error + MarketCapDistribution" where
  "load_market_cap_distribution equities =
     (let vals = extract_market_caps equities
      in case (if vals \<noteq> [] then statistics_median vals else Inr 0) of
           Inl e \<Rightarrow> Inl e
         | Inr med \<Rightarrow>
             (case (if vals \<noteq> [] then statistics_mean vals else Inr 0) of
                Inl e \<Rightarrow> Inl e
              | Inr avg \<Rightarrow>
                  Inr \<lparr>MarketCapDistribution.count = int (length vals), median = med, mean = avg,
                       values = vals\<rparr>))"

definition count_equity_fields :: "CanonicalEquity \<Rightarrow> (string \<times> string) list \<Rightarrow> int" where
  "count_equity_fields equity flds =
     (\<Sum>(attr, _)\<leftarrow>filter (\<lambda>(attr, _). has_field equity attr) flds. 1)"

definition compute_completeness_scores :: "CanonicalEquity list \<Rightarrow> int list" where
  "compute_completeness_scores equities =
     (let flds = financial_fields in map (\<lambda>eq. count_equity_fields eq flds) equities)"

definition load_completeness_distribution ::
  "CanonicalEquity list \<Rightarrow> py_error + CompletenessDistribution" where
  "load_completeness_distribution equities =
     (let scores = compute_completeness_scores equities
      in case (if scores \<noteq> [] then statistics_median (map of_int scores) else Inr 0) of
           Inl e \<Rightarrow> Inl e
         | Inr med \<Rightarrow>
             (case (if scores \<noteq> [] then statistics_mean (map of_int scores) else Inr 0) of
                Inl e \<Rightarrow> Inl e
              | Inr avg \<Rightarrow>
                  Inr \<lparr>CompletenessDistribution.count = int (length scores), median = med,
                       mean = avg, values = scores\<rparr>))"


subsection \<open>analyses/equity_analysis/tradingview.py\<close>

text \<open>
  A decoded JSON document, and what one \<open>httpx.post\<close> can do: raise (connection
  failure, timeout), or return a response with a status and a body that may not be JSON.
\<close>

datatype json =
  JNull | JBool bool | JNum rat | JStr string | JArr "json list" | JObj "(string \<times> json) list"

datatype http_outcome = NetworkError | Response bool "json option"

text \<open>
  The request body of \<open>_build_scan_request\<close>: the filter and the markets vary, every
  other entry of the dictionary is a constant.
\<close>

record scan_request =
  markets :: "string list"
  filter_left :: string
  filter_operation :: string
  filter_right :: string

definition build_scan_request :: "string \<Rightarrow> string \<Rightarrow> string \<Rightarrow> string list \<Rightarrow> scan_request" where
  "build_scan_request field query operation mkts =
     \<lparr>markets = mkts, filter_left = field, filter_operation = operation, filter_right = query\<rparr>"

definition mic_to_tv_market_map :: "(string \<times> string) list" where
  "mic_to_tv_market_map =
    [(''XNYS'', ''america''), (''XNAS'', ''america''), (''XASE'', ''america''),
     (''ARCX'', ''america''), (''BATS'', ''america''), (''IEXG'', ''america''),
     (''XLON'', ''uk''), (''XETR'', ''germany''), (''XFRA'', ''germany''),
     (''XPAR'', ''france''), (''XAMS'', ''netherlands''), (''XBRU'', ''belgium''),
     (''XLIS'', ''portugal''), (''XMIL'', ''italy''), (''XMAD'', ''spain''),
     (''XSWX'', ''switzerland''), (''XSTO'', ''sweden''), (''XCSE'', ''denmark''),
     (''XOSL'', ''norway''), (''XHEL'', ''finland''), (''XWBO'', ''austria''),
     (''XTKS'', ''japan''), (''XHKG'', ''hongkong''), (''XSHG'', ''china''),
     (''XSHE'', ''china''), (''XKRX'', ''korea''), (''XTAI'', ''taiwan''),
     (''XASX'', ''australia''), (''XNZE'', ''newzealand''), (''XSES'', ''singapore''),
     (''XBOM'', ''india''), (''XNSE'', ''india''), (''XTSE'', ''canada''),
     (''BVMF'', ''brazil''), (''XMEX'', ''mexico''), (''XJSE'', ''rsa'')]"

text \<open>\<open>s.split(",")\<close> on a string: the pieces between the commas, at least one.\<close>

fun split_comma :: "string \<Rightarrow> string list" where
  "split_comma [] = [[]]"
| "split_comma (c # cs) =
     (if c = CHR '','' then [] # split_comma cs
      else (case split_comma cs of [] \<Rightarrow> [[c]] | p # ps \<Rightarrow> (c # p) # ps))"

text \<open>
  \<open>s.strip()\<close>, for the ASCII white space: tab, line feed, vertical tab, form feed,
  carriage return, the four separators \<open>0x1C\<close> to \<open>0x1F\<close> and the space.
\<close>

definition is_space :: "char \<Rightarrow> bool" where
  "is_space c = (let n = of_char c :: nat in (9 \<le> n \<and> n \<le> 13) \<or> (28 \<le> n \<and> n \<le> 32))"

definition strip :: "string \<Rightarrow> string" where
  "strip s = rev (dropWhile is_space (rev (dropWhile is_space s)))"

text \<open>\<open>list(dict.fromkeys(xs))\<close>: the first occurrence of every element, in order.\<close>

fun fromkeys :: "'a list \<Rightarrow> 'a list" where
  "fromkeys [] = []"
| "fromkeys (x # xs) = x # fromkeys (filter (\<lambda>y. y \<noteq> x) xs)"

definition mics_to_tv_markets :: "string option \<Rightarrow> string list" where
  "mics_to_tv_markets mics_arg =
     (case mics_arg of
        None \<Rightarrow> []
      | Some m \<Rightarrow>
          if m = [] then []
          else
            let mkts = map (\<lambda>mic. map_of mic_to_tv_market_map (strip mic)) (split_comma m)
            in fromkeys (map the (filter (\<lambda>x. x \<noteq> None \<and> x \<noteq> Some []) mkts)))"

text \<open>Truth value of a JSON value in a condition.\<close>

fun truthy :: "json \<Rightarrow> bool" where
  "truthy JNull = False"
| "truthy (JBool b) = b"
| "truthy (JNum x) = (x \<noteq> 0)"
| "truthy (JStr s) = (s \<noteq> [])"
| "truthy (JArr xs) = (xs \<noteq> [])"
| "truthy (JObj kvs) = (kvs \<noteq> [])"

text \<open>\<open>d.get(key, default)\<close>; only a dictionary has the method.\<close>

fun dict_get :: "json \<Rightarrow> string \<Rightarrow> json \<Rightarrow> py_error + json" where
  "dict_get (JObj kvs) k dflt = Inr (case map_of kvs k of None \<Rightarrow> dflt | Some v \<Rightarrow> v)"
| "dict_get _ k dflt = Inl AttributeError"

text \<open>\<open>rows[0]\<close> on a truthy value.\<close>

fun first_item :: "json \<Rightarrow> py_error + json" where
  "first_item (JArr (x # xs)) = Inr x"
| "first_item (JArr []) = Inl IndexError"
| "first_item (JStr (c # cs)) = Inr (JStr [c])"
| "first_item (JStr []) = Inl IndexError"
| "first_item (JObj kvs) = Inl KeyError"
| "first_item _ = Inl TypeError"

text \<open>
  The body of the \<open>try\<close> block of \<open>_try_scan\<close>: \<open>Inl\<close> is an exception raised inside
  it, \<open>Inr None\<close> is falling out of the block without a \<open>return\<close>, and \<open>Inr (Some v)\<close>
  is \<open>return rows[0].get("s")\<close>, where \<open>v\<close> may be \<open>JNull\<close> (Python's \<open>None\<close>).
\<close>

definition scan_attempt :: "(scan_request \<Rightarrow> http_outcome) \<Rightarrow> scan_request \<Rightarrow> py_error + json option" where
  "scan_attempt post body =
     (case post body of
        NetworkError \<Rightarrow> Inl RequestError
      | Response ok payload \<Rightarrow>
          if \<not> ok then Inl HTTPStatusError
          else
            (case payload of
               None \<Rightarrow> Inl JSONDecodeError
             | Some doc \<Rightarrow>
                 (case dict_get doc ''data'' (JArr []) of
                    Inl e \<Rightarrow> Inl e
                  | Inr rows \<Rightarrow>
                      if truthy rows then
                        (case first_item rows of
                           Inl e \<Rightarrow> Inl e
                         | Inr row \<Rightarrow>
                             (case dict_get row ''s'' JNull of
                                Inl e \<Rightarrow> Inl e
                              | Inr v \<Rightarrow> Inr (Some v)))
                      else Inr None)))"

text \<open>
  \<open>_try_scan\<close>: every exception of the block is swallowed. The result is \<open>None\<close> for
  Python's \<open>None\<close> and \<open>Some v\<close> for any other value.
\<close>

definition try_scan ::
  "(scan_request \<Rightarrow> http_outcome) \<Rightarrow> string \<Rightarrow> string \<Rightarrow> string \<Rightarrow> string list \<Rightarrow> json option" where
  "try_scan post field query operation mkts =
     (let body = build_scan_request field query operation mkts
      in case scan_attempt post body of
           Inl e \<Rightarrow> None
         | Inr None \<Rightarrow> None
         | Inr (Some JNull) \<Rightarrow> None
         | Inr (Some v) \<Rightarrow> Some v)"

text \<open>
  The loop of \<open>resolve_tv_symbol\<close> over the searches still to try. Beside the result it
  returns the requests it has sent to the scanner, in order.
\<close>

fun run_searches ::
  "(scan_request \<Rightarrow> http_outcome) \<Rightarrow> string list \<Rightarrow> (string \<times> string \<times> string) list
     \<Rightarrow> json option \<times> scan_request list" where
  "run_searches post mkts [] = (None, [])"
| "run_searches post mkts ((field, query, operation) # rest) =
     (if query = [] then run_searches post mkts rest
      else
        (case try_scan post field query operation mkts of
           Some result \<Rightarrow> (Some result, [build_scan_request field query operation mkts])
         | None \<Rightarrow>
             (let (r, sent) = run_searches post mkts rest
              in (r, build_scan_request field query operation mkts # sent))))"

definition searches :: "string \<Rightarrow> string \<Rightarrow> (string \<times> string \<times> string) list" where
  "searches ticker equity_name =
     [(''name'', ticker, ''equal''),
      (''description'', equity_name, ''match''),
      (''name'', ticker, ''match'')]"

definition resolve_tv_symbol ::
  "(scan_request \<Rightarrow> http_outcome) \<Rightarrow> string \<Rightarrow> string \<Rightarrow> string option
     \<Rightarrow> json \<times> scan_request list" where
  "resolve_tv_symbol post ticker equity_name mics_arg =
     (let mkts = mics_to_tv_markets mics_arg
      in case run_searches post mkts (searches ticker equity_name) of
           (Some result, sent) \<Rightarrow> (result, sent)
         | (None, sent) \<Rightarrow> (JStr ticker, sent))"


subsection \<open>analyses/equity_analysis/formatters.py\<close>












subsection \<open>Example records\<close>

text \<open>An equity with every field null, from which the examples below are built.\<close>

definition null_identity :: EquityIdentity where
  "null_identity =
     \<lparr>name = None, symbol = None, share_class_figi = None, isin = None, cusip = None,
      cik = None, lei = None\<rparr>"

definition null_financials :: EquityFinancials where
  "null_financials =
     \<lparr>mics = None, currency = None, last_price = None, market_cap = None,
      fifty_two_week_min = None, fifty_two_week_max = None, dividend_yield = None,
      market_volume = None, held_insiders = None, held_institutions = None,
      short_interest = None, share_float = None, shares_outstanding = None,
      revenue_per_share = None, profit_margin = None, gross_margin = None,
      operating_margin = None, free_cash_flow = None, operating_cash_flow = None,
      return_on_equity = None, return_on_assets = None, performance_1_year = None,
      total_debt = None, revenue = None, ebitda = None, trailing_pe = None,
      price_to_book = None, trailing_eps = None, analyst_rating = None, industry = None,
      sector = None\<rparr>"

definition equity_of :: "EquityFinancials \<Rightarrow> CanonicalEquity" where
  "equity_of f = \<lparr>identity = null_identity, financials = f, snapshot_date = None\<rparr>"

definition example_equities :: "CanonicalEquity list" where
  "example_equities =
     [equity_of (null_financials\<lparr>last_price := Some 10, sector := Some ''Tech''\<rparr>),
      equity_of (null_financials\<lparr>market_cap := Some 5, sector := Some ''Tech''\<rparr>),
      equity_of (null_financials\<lparr>last_price := Some 7, market_cap := Some 3,
        sector := Some ''Energy''\<rparr>),
      equity_of null_financials]"

subsection \<open>The specification's wording\<close>

text \<open>
  The weighted average of the per-field percentages, each field weighing its total, and
  their arithmetic mean.
\<close>

definition weighted_average_pct :: "FieldCoverage list \<Rightarrow> rat" where
  "weighted_average_pct coverage =
     (\<Sum>fc\<leftarrow>coverage.
        of_int (FieldCoverage.total fc) / of_int (\<Sum>g\<leftarrow>coverage. FieldCoverage.total g)
          * coverage_column fc)"

definition arithmetic_mean_pct :: "FieldCoverage list \<Rightarrow> rat" where
  "arithmetic_mean_pct coverage =
     (\<Sum>fc\<leftarrow>coverage. coverage_column fc) / of_nat (length coverage)"

text \<open>
  The coverage of the specification, written with the attributes themselves: for each
  field, in order, its label and the test that a record has the field non-null.
\<close>

definition identity_presence :: "(string \<times> (CanonicalEquity \<Rightarrow> bool)) list" where
  "identity_presence =
    [(''Name'', \<lambda>eq. name (identity eq) \<noteq> None),
     (''Symbol'', \<lambda>eq. symbol (identity eq) \<noteq> None),
     (''FIGI'', \<lambda>eq. share_class_figi (identity eq) \<noteq> None),
     (''ISIN'', \<lambda>eq. isin (identity eq) \<noteq> None),
     (''CUSIP'', \<lambda>eq. cusip (identity eq) \<noteq> None),
     (''CIK'', \<lambda>eq. cik (identity eq) \<noteq> None),
     (''LEI'', \<lambda>eq. lei (identity eq) \<noteq> None)]"

definition financial_presence :: "(string \<times> (CanonicalEquity \<Rightarrow> bool)) list" where
  "financial_presence =
    [(''MICs'', \<lambda>eq. mics (financials eq) \<noteq> None),
     (''Currency'', \<lambda>eq. currency (financials eq) \<noteq> None),
     (''Last Price'', \<lambda>eq. last_price (financials eq) \<noteq> None),
     (''Market Cap'', \<lambda>eq. market_cap (financials eq) \<noteq> None),
     (''52W Min'', \<lambda>eq. fifty_two_week_min (financials eq) \<noteq> None),
     (''52W Max'', \<lambda>eq. fifty_two_week_max (financials eq) \<noteq> None),
     (''Dividend Yield'', \<lambda>eq. dividend_yield (financials eq) \<noteq> None),
     (''Market Volume'', \<lambda>eq. market_volume (financials eq) \<noteq> None),
     (''Held Insiders'', \<lambda>eq. held_insiders (financials eq) \<noteq> None),
     (''Held Institutions'', \<lambda>eq. held_institutions (financials eq) \<noteq> None),
     (''Short Interest'', \<lambda>eq. short_interest (financials eq) \<noteq> None),
     (''Share Float'', \<lambda>eq. share_float (financials eq) \<noteq> None),
     (''Shares Outstanding'', \<lambda>eq. shares_outstanding (financials eq) \<noteq> None),
     (''Revenue/Share'', \<lambda>eq. revenue_per_share (financials eq) \<noteq> None),
     (''Profit Margin'', \<lambda>eq. profit_margin (financials eq) \<noteq> None),
     (''Gross Margin'', \<lambda>eq. gross_margin (financials eq) \<noteq> None),
     (''Operating Margin'', \<lambda>eq. operating_margin (financials eq) \<noteq> None),
     (''Free Cash Flow'', \<lambda>eq. free_cash_flow (financials eq) \<noteq> None),
     (''Operating Cash Flow'', \<lambda>eq. operating_cash_flow (financials eq) \<noteq> None),
     (''ROE'', \<lambda>eq. return_on_equity (financials eq) \<noteq> None),
     (''ROA'', \<lambda>eq. return_on_assets (financials eq) \<noteq> None),
     (''1Y Performance'', \<lambda>eq. performance_1_year (financials eq) \<noteq> None),
     (''Total Debt'', \<lambda>eq. total_debt (financials eq) \<noteq> None),
     (''Revenue'', \<lambda>eq. revenue (financials eq) \<noteq> None),
     (''EBITDA'', \<lambda>eq. ebitda (financials eq) \<noteq> None),
     (''Trailing P/E'', \<lambda>eq. trailing_pe (financials eq) \<noteq> None),
     (''Price/Book'', \<lambda>eq. price_to_book (financials eq) \<noteq> None),
     (''Trailing EPS'', \<lambda>eq. trailing_eps (financials eq) \<noteq> None),
     (''Analyst Rating'', \<lambda>eq. analyst_rating (financials eq) \<noteq> None),
     (''Industry'', \<lambda>eq. industry (financials eq) \<noteq> None),
     (''Sector'', \<lambda>eq. sector (financials eq) \<noteq> None)]"

definition coverage_by_presence ::
  "CanonicalEquity list \<Rightarrow> (string \<times> (CanonicalEquity \<Rightarrow> bool)) list \<Rightarrow> FieldCoverage list" where
  "coverage_by_presence equities presence =
     map (\<lambda>(lbl, present).
            \<lparr>label = lbl, count = int (length (filter present equities)),
             total = int (length equities)\<rparr>) presence"

text \<open>
  Symbol resolution in the specification's words: the requests of the three tiers in
  their order, without the tiers whose query is empty, and the answer one request
  yields, if any.
\<close>

definition planned_requests :: "string \<Rightarrow> string \<Rightarrow> string list \<Rightarrow> scan_request list" where
  "planned_requests ticker equity_name mkts =
     map (\<lambda>(field, query, operation). build_scan_request field query operation mkts)
       (filter (\<lambda>(field, query, operation). query \<noteq> [])
          [(''name'', ticker, ''equal''),
           (''description'', equity_name, ''match''),
           (''name'', ticker, ''match'')])"

definition answer :: "(scan_request \<Rightarrow> http_outcome) \<Rightarrow> scan_request \<Rightarrow> json option" where
  "answer post req =
     (case post req of
        Response True (Some (JObj doc)) \<Rightarrow>
          (case map_of doc ''data'' of
             Some (JArr (JObj row # _)) \<Rightarrow>
               (case map_of row ''s'' of
                  None \<Rightarrow> None
                | Some JNull \<Rightarrow> None
                | Some v \<Rightarrow> Some v)
           | _ \<Rightarrow> None)
      | _ \<Rightarrow> None)"

text \<open>
  A scanner that is unreachable for the exact search and answers the search by
  description.
\<close>

definition example_scanner :: "scan_request \<Rightarrow> http_outcome" where
  "example_scanner req =
     (if filter_operation req = ''equal'' then NetworkError
      else if filter_left req = ''description''
      then Response True
             (Some (JObj [(''totalCount'', JNum 1),
                          (''data'', JArr [JObj [(''s'', JStr ''NASDAQ:AAPL''),
                                                 (''d'', JArr [])]])]))
      else Response False None)"

section \<open>Properties\<close>

subsection \<open>Attribute lookup by name\<close>

text \<open>
  For every name of the two field lists, the lookup by name reads the attribute of that
  name.
\<close>

lemma getattr_financials_simps:
  "getattr_financials f ''mics'' = map_option VList (mics f)"
  "getattr_financials f ''currency'' = map_option VStr (currency f)"
  "getattr_financials f ''last_price'' = map_option VDec (last_price f)"
  "getattr_financials f ''market_cap'' = map_option VDec (market_cap f)"
  "getattr_financials f ''fifty_two_week_min'' = map_option VDec (fifty_two_week_min f)"
  "getattr_financials f ''fifty_two_week_max'' = map_option VDec (fifty_two_week_max f)"
  "getattr_financials f ''dividend_yield'' = map_option VDec (dividend_yield f)"
  "getattr_financials f ''market_volume'' = map_option VDec (market_volume f)"
  "getattr_financials f ''held_insiders'' = map_option VDec (held_insiders f)"
  "getattr_financials f ''held_institutions'' = map_option VDec (held_institutions f)"
  "getattr_financials f ''short_interest'' = map_option VDec (short_interest f)"
  "getattr_financials f ''share_float'' = map_option VDec (share_float f)"
  "getattr_financials f ''shares_outstanding'' = map_option VDec (shares_outstanding f)"
  "getattr_financials f ''revenue_per_share'' = map_option VDec (revenue_per_share f)"
  "getattr_financials f ''profit_margin'' = map_option VDec (profit_margin f)"
  "getattr_financials f ''gross_margin'' = map_option VDec (gross_margin f)"
  "getattr_financials f ''operating_margin'' = map_option VDec (operating_margin f)"
  "getattr_financials f ''free_cash_flow'' = map_option VDec (free_cash_flow f)"
  "getattr_financials f ''operating_cash_flow'' = map_option VDec (operating_cash_flow f)"
  "getattr_financials f ''return_on_equity'' = map_option VDec (return_on_equity f)"
  "getattr_financials f ''return_on_assets'' = map_option VDec (return_on_assets f)"
  "getattr_financials f ''performance_1_year'' = map_option VDec (performance_1_year f)"
  "getattr_financials f ''total_debt'' = map_option VDec (total_debt f)"
  "getattr_financials f ''revenue'' = map_option VDec (revenue f)"
  "getattr_financials f ''ebitda'' = map_option VDec (ebitda f)"
  "getattr_financials f ''trailing_pe'' = map_option VDec (trailing_pe f)"
  "getattr_financials f ''price_to_book'' = map_option VDec (price_to_book f)"
  "getattr_financials f ''trailing_eps'' = map_option VDec (trailing_eps f)"
  "getattr_financials f ''analyst_rating'' = map_option VStr (analyst_rating f)"
  "getattr_financials f ''industry'' = map_option VStr (industry f)"
  "getattr_financials f ''sector'' = map_option VStr (sector f)"
  by (simp_all add: getattr_financials_def financials_attrs_def)

lemma getattr_identity_simps:
  "getattr_identity i ''name'' = map_option VStr (name i)"
  "getattr_identity i ''symbol'' = map_option VStr (symbol i)"
  "getattr_identity i ''share_class_figi'' = map_option VStr (share_class_figi i)"
  "getattr_identity i ''isin'' = map_option VStr (isin i)"
  "getattr_identity i ''cusip'' = map_option VStr (cusip i)"
  "getattr_identity i ''cik'' = map_option VStr (cik i)"
  "getattr_identity i ''lei'' = map_option VStr (lei i)"
  by (simp_all add: getattr_identity_def identity_attrs_def)


lemma getattr_group_simps:
  "getattr_group eq ''identity'' attr = getattr_identity (identity eq) attr"
  "getattr_group eq ''financials'' attr = getattr_financials (financials eq) attr"
  by (simp_all add: getattr_group_def)

subsection \<open>Plausibility checks\<close>













subsection \<open>Counts and percentages\<close>

lemma sum_ones_filter: "(\<Sum>x\<leftarrow>filter p xs. (1::int)) = int (length (filter p xs))"
  by (induction xs) auto

lemma sum_ones_bounds:
  "0 \<le> (\<Sum>x\<leftarrow>filter p xs. (1::int)) \<and> (\<Sum>x\<leftarrow>filter p xs. (1::int)) \<le> int (length xs)"
  by (simp add: sum_ones_filter)

lemma pct_bounds:
  fixes c t :: int
  assumes "0 \<le> c" "c \<le> t"
  shows "0 \<le> (if t \<noteq> 0 then (of_int c :: rat) / of_int t * 100 else 0)"
    and "(if t \<noteq> 0 then (of_int c :: rat) / of_int t * 100 else 0) \<le> 100"
proof -
  show "0 \<le> (if t \<noteq> 0 then (of_int c :: rat) / of_int t * 100 else 0)"
    using assms by simp
  show "(if t \<noteq> 0 then (of_int c :: rat) / of_int t * 100 else 0) \<le> 100"
  proof (cases "t = 0")
    case True
    then show ?thesis by simp
  next
    case False
    with assms have pos: "0 < t" by linarith
    have "(of_int c :: rat) / of_int t \<le> 1"
      using assms pos by (simp add: divide_le_eq)
    then have "(of_int c :: rat) / of_int t * 100 \<le> 1 * 100"
      by (rule mult_right_mono) simp
    then show ?thesis using False by simp
  qed
qed

lemma finding_bounds:
  "0 \<le> ConsistencyFinding.count (finding d eqs (int (length eqs)) p) \<and>
   ConsistencyFinding.count (finding d eqs (int (length eqs)) p) \<le> int (length eqs) \<and>
   ConsistencyFinding.total (finding d eqs (int (length eqs)) p) = int (length eqs)"
  by (simp add: finding_def sum_ones_filter)

lemma affected_column_bounds:
  assumes "0 \<le> ConsistencyFinding.count f" "ConsistencyFinding.count f \<le> ConsistencyFinding.total f"
  shows "0 \<le> affected_column f \<and> affected_column f \<le> 100"
  unfolding affected_column_def using pct_bounds [OF assms] by simp

lemma coverage_column_bounds:
  assumes "0 \<le> FieldCoverage.count f" "FieldCoverage.count f \<le> FieldCoverage.total f"
  shows "0 \<le> coverage_column f \<and> coverage_column f \<le> 100"
  unfolding coverage_column_def using pct_bounds [OF assms] by simp

lemma field_coverage_pct_bounds:
  "0 \<le> field_coverage_pct eqs attr (int (length eqs)) \<and>
   field_coverage_pct eqs attr (int (length eqs)) \<le> 100"
proof -
  let ?c = "\<Sum>eq\<leftarrow>filter (\<lambda>eq. has_field eq attr) eqs. (1::int)"
  have b: "0 \<le> ?c" "?c \<le> int (length eqs)" using sum_ones_bounds by auto
  have "field_coverage_pct eqs attr (int (length eqs)) =
        (if int (length eqs) \<noteq> 0 then (of_int ?c :: rat) / of_int (int (length eqs)) * 100 else 0)"
    by (simp add: field_coverage_pct_def)
  then show ?thesis using pct_bounds [OF b] by simp
qed

lemma finding_in_range:
  assumes "f = finding d eqs (int (length eqs)) p"
  shows "0 \<le> ConsistencyFinding.count f \<and> ConsistencyFinding.count f \<le> ConsistencyFinding.total f \<and>
         ConsistencyFinding.total f = int (length eqs) \<and>
         0 \<le> affected_column f \<and> affected_column f \<le> 100"
proof -
  have b: "0 \<le> ConsistencyFinding.count f" "ConsistencyFinding.count f \<le> ConsistencyFinding.total f"
    "ConsistencyFinding.total f = int (length eqs)"
    using finding_bounds [of d eqs p] assms by auto
  then show ?thesis using affected_column_bounds [of f] by simp
qed

text \<open>
  C1. For every list of equities, every per-field coverage statistic and every finding of
  the three check batteries has a count between 0 and its total, the total being the
  length of the list; the coverage and affected percentages derived from them, and the
  per-sector coverage percentages, lie between 0 and 100.
\<close>

theorem counts_and_percentages_bounded:
  "(\<forall>fc \<in> set (compute_coverage eqs grp flds).
      0 \<le> FieldCoverage.count fc \<and> FieldCoverage.count fc \<le> FieldCoverage.total fc \<and>
      FieldCoverage.total fc = int (length eqs) \<and>
      0 \<le> coverage_column fc \<and> coverage_column fc \<le> 100) \<and>
   (\<forall>f \<in> set (run_cross_field_checks eqs @ run_ratio_checks eqs @ run_plausibility_checks eqs).
      0 \<le> ConsistencyFinding.count f \<and> ConsistencyFinding.count f \<le> ConsistencyFinding.total f \<and>
      ConsistencyFinding.total f = int (length eqs) \<and>
      0 \<le> affected_column f \<and> affected_column f \<le> 100) \<and>
   (\<forall>pct \<in> set (sector_coverage_row eqs flds). 0 \<le> pct \<and> pct \<le> 100)"
proof (intro conjI ballI)
  fix fc assume "fc \<in> set (compute_coverage eqs grp flds)"
  then obtain attr lbl where fc:
    "fc = \<lparr>label = lbl, count = count_populated eqs grp attr, total = int (length eqs)\<rparr>"
    by (auto simp: compute_coverage_def Let_def)
  have b: "0 \<le> FieldCoverage.count fc" "FieldCoverage.count fc \<le> FieldCoverage.total fc"
    using fc sum_ones_bounds [of "\<lambda>eq. getattr_group eq grp attr \<noteq> None" eqs]
    by (simp_all add: count_populated_def)
  show "0 \<le> FieldCoverage.count fc" "FieldCoverage.count fc \<le> FieldCoverage.total fc"
    using b by simp_all
  show "FieldCoverage.total fc = int (length eqs)" using fc by simp
  show "0 \<le> coverage_column fc" "coverage_column fc \<le> 100"
    using coverage_column_bounds [OF b] by simp_all
next
  fix f
  assume "f \<in> set (run_cross_field_checks eqs @ run_ratio_checks eqs @ run_plausibility_checks eqs)"
  then obtain d p where "f = finding d eqs (int (length eqs)) p"
    by (auto simp: run_cross_field_checks_def run_ratio_checks_def run_plausibility_checks_def
        Let_def)
  from finding_in_range [OF this]
  show "0 \<le> ConsistencyFinding.count f" "ConsistencyFinding.count f \<le> ConsistencyFinding.total f"
    "ConsistencyFinding.total f = int (length eqs)" "0 \<le> affected_column f"
    "affected_column f \<le> 100"
    by simp_all
next
  fix pct assume "pct \<in> set (sector_coverage_row eqs flds)"
  then obtain attr where "pct = field_coverage_pct eqs attr (int (length eqs))"
    by (auto simp: sector_coverage_row_def Let_def)
  then show "0 \<le> pct" "pct \<le> 100"
    using field_coverage_pct_bounds [of eqs attr] by simp_all
qed

theorem counts_and_percentages_bounded_witness:
  "coverage_column (hd (compute_coverage example_equities ''financials'' financial_fields)) \<le> 100 \<and>
   affected_column (hd (run_plausibility_checks example_equities)) \<le> 100 \<and>
   hd (sector_coverage_row example_equities heatmap_fields) \<le> 100"
proof -
  have "hd (compute_coverage example_equities ''financials'' financial_fields)
          \<in> set (compute_coverage example_equities ''financials'' financial_fields)"
    by (simp add: compute_coverage_def financial_fields_def Let_def)
  moreover have "hd (run_plausibility_checks example_equities)
      \<in> set (run_cross_field_checks example_equities @ run_ratio_checks example_equities
              @ run_plausibility_checks example_equities)"
    by (simp add: run_plausibility_checks_def Let_def)
  moreover have "hd (sector_coverage_row example_equities heatmap_fields)
      \<in> set (sector_coverage_row example_equities heatmap_fields)"
    by (simp add: sector_coverage_row_def heatmap_fields_def financial_fields_def Let_def)
  ultimately show ?thesis
    using counts_and_percentages_bounded [of example_equities "''financials''" financial_fields]
      counts_and_percentages_bounded [of example_equities "''financials''" heatmap_fields]
    by blast
qed

subsection \<open>Overall coverage\<close>

lemma weighted_terms:
  fixes T :: rat
  assumes "\<forall>fc \<in> set cov. FieldCoverage.total fc = 0 \<longrightarrow> FieldCoverage.count fc = 0"
  shows "(\<Sum>fc\<leftarrow>cov. of_int (FieldCoverage.total fc) / T * coverage_column fc) =
         of_int (\<Sum>fc\<leftarrow>cov. FieldCoverage.count fc) / T * 100"
  using assms
proof (induction cov)
  case Nil
  then show ?case by simp
next
  case (Cons fc cov)
  have head: "of_int (FieldCoverage.total fc) / T * coverage_column fc =
              of_int (FieldCoverage.count fc) / T * 100"
  proof (cases "FieldCoverage.total fc = 0")
    case True
    with Cons.prems have "FieldCoverage.count fc = 0" by simp
    with True show ?thesis by (simp add: coverage_column_def)
  next
    case False
    then show ?thesis by (simp add: coverage_column_def)
  qed
  have "(\<Sum>fc\<leftarrow>cov. of_int (FieldCoverage.total fc) / T * coverage_column fc) =
        of_int (\<Sum>fc\<leftarrow>cov. FieldCoverage.count fc) / T * 100"
    using Cons by simp
  with head show ?case
    by (simp add: add_divide_distrib distrib_right)
qed

text \<open>
  C2. The overall coverage of a group is the sum of the per-field counts over the sum of
  the per-field totals, times 100, and 0 when the summed total is zero. Where no field has
  a count without a total it is the weighted average of the per-field percentages, each
  field weighing its total; it is not their arithmetic mean: two fields with 1 of 1 and
  0 of 3 populated have overall coverage 25, while the mean of 100 and 0 is 50.
\<close>

theorem overall_coverage_weighted:
  "overall_coverage cov =
     (if (\<Sum>fc\<leftarrow>cov. FieldCoverage.total fc) = 0 then 0
      else of_int (\<Sum>fc\<leftarrow>cov. FieldCoverage.count fc)
             / of_int (\<Sum>fc\<leftarrow>cov. FieldCoverage.total fc) * 100) \<and>
   ((\<Sum>fc\<leftarrow>cov. FieldCoverage.total fc) \<noteq> 0 \<and>
    (\<forall>fc \<in> set cov. FieldCoverage.total fc = 0 \<longrightarrow> FieldCoverage.count fc = 0)
      \<longrightarrow> overall_coverage cov = weighted_average_pct cov) \<and>
   overall_coverage
     [\<lparr>label = ''A'', count = 1, total = 1\<rparr>, \<lparr>label = ''B'', count = 0, total = 3\<rparr>] = 25 \<and>
   arithmetic_mean_pct
     [\<lparr>label = ''A'', count = 1, total = 1\<rparr>, \<lparr>label = ''B'', count = 0, total = 3\<rparr>] = 50"
proof (intro conjI impI)
  show "overall_coverage cov =
     (if (\<Sum>fc\<leftarrow>cov. FieldCoverage.total fc) = 0 then 0
      else of_int (\<Sum>fc\<leftarrow>cov. FieldCoverage.count fc)
             / of_int (\<Sum>fc\<leftarrow>cov. FieldCoverage.total fc) * 100)"
    by (simp add: overall_coverage_def Let_def)
next
  assume h: "(\<Sum>fc\<leftarrow>cov. FieldCoverage.total fc) \<noteq> 0 \<and>
    (\<forall>fc \<in> set cov. FieldCoverage.total fc = 0 \<longrightarrow> FieldCoverage.count fc = 0)"
  then have "weighted_average_pct cov =
      of_int (\<Sum>fc\<leftarrow>cov. FieldCoverage.count fc)
        / of_int (\<Sum>fc\<leftarrow>cov. FieldCoverage.total fc) * 100"
    unfolding weighted_average_pct_def by (intro weighted_terms) simp
  with h show "overall_coverage cov = weighted_average_pct cov"
    by (simp add: overall_coverage_def Let_def)
next
  show "overall_coverage
     [\<lparr>label = ''A'', count = 1, total = 1\<rparr>, \<lparr>label = ''B'', count = 0, total = 3\<rparr>] = 25"
    by (simp add: overall_coverage_def Let_def)
  show "arithmetic_mean_pct
     [\<lparr>label = ''A'', count = 1, total = 1\<rparr>, \<lparr>label = ''B'', count = 0, total = 3\<rparr>] = 50"
    by (simp add: arithmetic_mean_pct_def coverage_column_def)
qed

theorem overall_coverage_weighted_witness:
  "overall_coverage
     [\<lparr>label = ''A'', count = 1, total = 2\<rparr>, \<lparr>label = ''B'', count = 3, total = 6\<rparr>] = 50 \<and>
   weighted_average_pct
     [\<lparr>label = ''A'', count = 1, total = 2\<rparr>, \<lparr>label = ''B'', count = 3, total = 6\<rparr>] = 50"
  using overall_coverage_weighted
    [of "[\<lparr>label = ''A'', count = 1, total = 2\<rparr>, \<lparr>label = ''B'', count = 3, total = 6\<rparr>]"]
  by simp

subsection \<open>Coverage computation\<close>

lemma identity_coverage_by_presence:
  "compute_coverage eqs ''identity'' identity_fields = coverage_by_presence eqs identity_presence"
  by (simp add: compute_coverage_def identity_fields_def coverage_by_presence_def
      identity_presence_def count_populated_def sum_ones_filter getattr_group_simps
      getattr_identity_simps Let_def)

lemma financial_coverage_by_presence:
  "compute_coverage eqs ''financials'' financial_fields =
     coverage_by_presence eqs financial_presence"
  by (simp add: compute_coverage_def financial_fields_def coverage_by_presence_def
      financial_presence_def count_populated_def sum_ones_filter getattr_group_simps
      getattr_financials_simps Let_def)

text \<open>
  C3. Coverage is computed over two fixed ordered field lists, 7 identity fields and 31
  financial fields. For every list of equities the coverage of each field, in the order
  of the list, carries the field's label, the number of records whose field is non-null
  as its count and the number of records as its total; the coverage percentage is count
  over total times 100, and 0 when the total is 0.
\<close>

theorem coverage_counts_non_null:
  "length identity_fields = 7 \<and> length financial_fields = 31 \<and>
   compute_coverage eqs ''identity'' identity_fields = coverage_by_presence eqs identity_presence \<and>
   compute_coverage eqs ''financials'' financial_fields =
     coverage_by_presence eqs financial_presence \<and>
   length identity_presence = 7 \<and> length financial_presence = 31 \<and>
   coverage_column fc =
     (if FieldCoverage.total fc = 0 then 0
      else of_int (FieldCoverage.count fc) / of_int (FieldCoverage.total fc) * 100)"
  using identity_coverage_by_presence financial_coverage_by_presence
  by (simp add: identity_fields_def financial_fields_def identity_presence_def
      financial_presence_def coverage_column_def)

theorem coverage_counts_non_null_witness:
  "map FieldCoverage.count (compute_coverage example_equities ''financials'' financial_fields)
     ! 2 = 2 \<and>
   map FieldCoverage.total (compute_coverage example_equities ''financials'' financial_fields)
     ! 2 = 4"
  using coverage_counts_non_null [of example_equities]
  by (simp add: coverage_by_presence_def financial_presence_def example_equities_def
      equity_of_def null_financials_def)

subsection \<open>Distributions\<close>

lemma extract_market_caps_empty_iff:
  "extract_market_caps eqs = [] \<longleftrightarrow>
     (\<forall>eq \<in> set eqs. \<forall>cap. market_cap (financials eq) = Some cap \<longrightarrow> \<not> cap > 0)"
  by (auto simp: extract_market_caps_def filter_empty_conv)

lemma sort_not_Nil: "xs \<noteq> [] \<Longrightarrow> sort xs \<noteq> []"
  by (metis length_sort length_0_conv)

lemma statistics_median_defined: "xs \<noteq> [] \<Longrightarrow> \<exists>m. statistics_median xs = Inr m"
proof -
  assume "xs \<noteq> []"
  then have "statistics_median xs =
      Inr (if length xs mod 2 = 1 then sort xs ! (length xs div 2)
           else (sort xs ! (length xs div 2 - 1) + sort xs ! (length xs div 2)) / 2)"
    by (simp add: statistics_median_def Let_def sort_not_Nil)
  then show ?thesis by blast
qed

lemma statistics_mean_defined: "xs \<noteq> [] \<Longrightarrow> \<exists>m. statistics_mean xs = Inr m"
  by (simp add: statistics_mean_def)

lemma load_market_cap_distribution_total:
  "\<exists>d. load_market_cap_distribution eqs = Inr d"
proof (cases "extract_market_caps eqs = []")
  case True
  then show ?thesis by (simp add: load_market_cap_distribution_def)
next
  case False
  from statistics_median_defined [OF False] statistics_mean_defined [OF False]
  obtain m a where "statistics_median (extract_market_caps eqs) = Inr m"
    "statistics_mean (extract_market_caps eqs) = Inr a" by blast
  with False show ?thesis by (simp add: load_market_cap_distribution_def Let_def)
qed

lemma load_completeness_distribution_total:
  "\<exists>d. load_completeness_distribution eqs = Inr d"
proof (cases "compute_completeness_scores eqs = []")
  case True
  then show ?thesis by (simp add: load_completeness_distribution_def)
next
  case False
  then have ne: "map rat_of_int (compute_completeness_scores eqs) \<noteq> []" by simp
  from statistics_median_defined [OF ne] statistics_mean_defined [OF ne]
  obtain m a where "statistics_median (map rat_of_int (compute_completeness_scores eqs)) = Inr m"
    "statistics_mean (map rat_of_int (compute_completeness_scores eqs)) = Inr a" by blast
  with False show ?thesis by (simp add: load_completeness_distribution_def Let_def)
qed

text \<open>
  C10. The market-cap distribution and the completeness distribution are defined on
  every list of equities: \<open>statistics.median\<close> and \<open>statistics.mean\<close>, which raise on
  empty data, are only called on non-empty values. When no equity has a positive market
  cap, and when there is no equity to score, the distribution has count 0 with median and
  mean 0.
\<close>

theorem distributions_defined_on_empty:
  "(\<exists>d. load_market_cap_distribution eqs = Inr d) \<and>
   (\<exists>d. load_completeness_distribution eqs = Inr d) \<and>
   ((\<forall>eq \<in> set eqs. \<forall>cap. market_cap (financials eq) = Some cap \<longrightarrow> \<not> cap > 0) \<longrightarrow>
      load_market_cap_distribution eqs =
        Inr \<lparr>MarketCapDistribution.count = 0, median = 0, mean = 0, values = []\<rparr>) \<and>
   (eqs = [] \<longrightarrow>
      load_completeness_distribution eqs =
        Inr \<lparr>CompletenessDistribution.count = 0, median = 0, mean = 0, values = []\<rparr>) \<and>
   statistics_median [] = Inl StatisticsError \<and> statistics_mean [] = Inl StatisticsError"
proof (intro conjI impI)
  show "\<exists>d. load_market_cap_distribution eqs = Inr d"
    by (rule load_market_cap_distribution_total)
  show "\<exists>d. load_completeness_distribution eqs = Inr d"
    by (rule load_completeness_distribution_total)
next
  assume "\<forall>eq \<in> set eqs. \<forall>cap. market_cap (financials eq) = Some cap \<longrightarrow> \<not> cap > 0"
  then have "extract_market_caps eqs = []"
    by (simp add: extract_market_caps_empty_iff)
  then show "load_market_cap_distribution eqs =
      Inr \<lparr>MarketCapDistribution.count = 0, median = 0, mean = 0, values = []\<rparr>"
    by (simp add: load_market_cap_distribution_def)
next
  assume "eqs = []"
  then show "load_completeness_distribution eqs =
      Inr \<lparr>CompletenessDistribution.count = 0, median = 0, mean = 0, values = []\<rparr>"
    by (simp add: load_completeness_distribution_def compute_completeness_scores_def)
next
  show "statistics_median [] = Inl StatisticsError"
    by (simp add: statistics_median_def)
  show "statistics_mean [] = Inl StatisticsError"
    by (simp add: statistics_mean_def)
qed

theorem distributions_defined_on_empty_witness:
  "load_market_cap_distribution [] =
     Inr \<lparr>MarketCapDistribution.count = 0, median = 0, mean = 0, values = []\<rparr> \<and>
   load_market_cap_distribution
       [equity_of null_financials, equity_of (null_financials\<lparr>market_cap := Some (- 3)\<rparr>)] =
     Inr \<lparr>MarketCapDistribution.count = 0, median = 0, mean = 0, values = []\<rparr> \<and>
   load_completeness_distribution [] =
     Inr \<lparr>CompletenessDistribution.count = 0, median = 0, mean = 0, values = []\<rparr>"
  using distributions_defined_on_empty [of "[]"]
    distributions_defined_on_empty
      [of "[equity_of null_financials, equity_of (null_financials\<lparr>market_cap := Some (- 3)\<rparr>)]"]
  by (simp add: equity_of_def null_financials_def)

subsection \<open>Number and ratio formatting\<close>





subsection \<open>Symbol resolution\<close>

lemma try_scan_answer:
  "try_scan post field query operation mkts =
     answer post (build_scan_request field query operation mkts)"
proof -
  let ?req = "build_scan_request field query operation mkts"
  show ?thesis
  proof (cases "post ?req")
    case NetworkError
    then show ?thesis by (simp add: try_scan_def scan_attempt_def answer_def)
  next
    case (Response ok payload)
    show ?thesis
    proof (cases "ok \<and> payload \<noteq> None")
      case False
      with Response show ?thesis
        by (auto simp: try_scan_def scan_attempt_def answer_def)
    next
      case True
      then obtain doc where payload: "ok" "payload = Some doc" by auto
      show ?thesis
      proof (cases doc)
        case (JObj kvs)
        show ?thesis
        proof (cases "map_of kvs ''data''")
          case None
          with Response payload JObj show ?thesis
            by (simp add: try_scan_def scan_attempt_def answer_def)
        next
          case (Some rows)
          show ?thesis
          proof (cases rows)
            case (JArr items)
            show ?thesis
            proof (cases items)
              case Nil
              with Response payload JObj Some JArr show ?thesis
                by (simp add: try_scan_def scan_attempt_def answer_def)
            next
              case (Cons row more)
              show ?thesis
              proof (cases row)
                case inner: (JObj rkvs)
                show ?thesis
                proof (cases "map_of rkvs ''s''")
                  case None
                  with Response payload JObj Some JArr Cons inner show ?thesis
                    by (simp add: try_scan_def scan_attempt_def answer_def)
                next
                  case found: (Some v)
                  with Response payload JObj Some JArr Cons inner show ?thesis
                    by (cases v) (simp_all add: try_scan_def scan_attempt_def answer_def)
                qed
              qed (use Response payload JObj Some JArr Cons in
                  \<open>simp_all add: try_scan_def scan_attempt_def answer_def\<close>)
            qed
          next
            case (JStr str)
            with Response payload JObj Some show ?thesis
              by (cases str) (simp_all add: try_scan_def scan_attempt_def answer_def)
          qed (use Response payload JObj Some in
              \<open>simp_all add: try_scan_def scan_attempt_def answer_def\<close>)
        qed
      qed (use Response payload in \<open>simp_all add: try_scan_def scan_attempt_def answer_def\<close>)
    qed
  qed
qed

lemma raised_is_no_result:
  "scan_attempt post (build_scan_request field query operation mkts) = Inl e \<Longrightarrow>
     try_scan post field query operation mkts = None"
  by (simp add: try_scan_def)

lemma run_searches_sent:
  "run_searches post mkts tiers =
     (let reqs = map (\<lambda>(field, query, operation). build_scan_request field query operation mkts)
                   (filter (\<lambda>(field, query, operation). query \<noteq> []) tiers);
          failing = takeWhile (\<lambda>req. answer post req = None) reqs;
          remaining = dropWhile (\<lambda>req. answer post req = None) reqs
      in (case remaining of [] \<Rightarrow> None | req # _ \<Rightarrow> answer post req,
          failing @ take 1 remaining))"
proof (induction post mkts tiers rule: run_searches.induct)
  case (1 post mkts)
  then show ?case by simp
next
  case (2 post mkts field query operation rest)
  show ?case
  proof (cases "query = []")
    case True
    with 2 show ?thesis by simp
  next
    case False
    show ?thesis
    proof (cases "try_scan post field query operation mkts")
      case None
      with False 2 show ?thesis
        by (simp add: try_scan_answer Let_def split: prod.splits)
    next
      case (Some r)
      with False show ?thesis
        by (simp add: try_scan_answer Let_def)
    qed
  qed
qed

lemma length_planned_requests: "length (planned_requests ticker nm mkts) \<le> 3"
proof -
  have "length (filter (\<lambda>(field, query, operation). query \<noteq> [])
          [(''name'', ticker, ''equal''), (''description'', nm, ''match''),
           (''name'', ticker, ''match'')]) \<le> 3"
    using length_filter_le [of "\<lambda>(field, query, operation). query \<noteq> []"
        "[(''name'', ticker, ''equal''), (''description'', nm, ''match''),
          (''name'', ticker, ''match'')]"]
    by simp
  then show ?thesis by (simp add: planned_requests_def)
qed

lemma resolve_tv_symbol_run:
  "resolve_tv_symbol post ticker nm mics_arg =
     (let reqs = planned_requests ticker nm (mics_to_tv_markets mics_arg);
          failing = takeWhile (\<lambda>req. answer post req = None) reqs;
          remaining = dropWhile (\<lambda>req. answer post req = None) reqs
      in (case remaining of [] \<Rightarrow> JStr ticker | req # _ \<Rightarrow> the (answer post req),
          failing @ take 1 remaining))"
proof -
  let ?reqs = "planned_requests ticker nm (mics_to_tv_markets mics_arg)"
  let ?rem = "dropWhile (\<lambda>req. answer post req = None) ?reqs"
  have run: "run_searches post (mics_to_tv_markets mics_arg) (searches ticker nm) =
      (case ?rem of [] \<Rightarrow> None | req # _ \<Rightarrow> answer post req,
       takeWhile (\<lambda>req. answer post req = None) ?reqs @ take 1 ?rem)"
    unfolding run_searches_sent by (simp add: planned_requests_def searches_def Let_def)
  show ?thesis
  proof (cases ?rem)
    case Nil
    with run show ?thesis
      by (simp add: resolve_tv_symbol_def Let_def del: dropWhile_eq_Nil_conv)
  next
    case (Cons req more)
    then have "req \<in> set ?rem" by simp
    have "\<not> (answer post (hd ?rem) = None)"
      using Cons hd_dropWhile [of "\<lambda>req. answer post req = None" ?reqs] by simp
    with Cons obtain v where "answer post req = Some v" by auto
    with run Cons show ?thesis by (simp add: resolve_tv_symbol_def Let_def)
  qed
qed

text \<open>
  C8. Symbol resolution sends at most three scanner searches, in the fixed order exact
  match on the ticker, fuzzy match on the company name, fuzzy match on the ticker,
  leaving out every tier whose query is empty. It sends the requests of the tiers that
  yield nothing, up to and including the first tier that yields a result, and returns
  that result; a tier whose request fails on the network, in its status or in the shape
  of its response yields nothing. When every tier yields nothing the original ticker is
  returned unchanged.
\<close>

theorem resolve_tv_symbol_three_tiers:
  assumes "reqs = planned_requests ticker equity_name (mics_to_tv_markets mics_arg)"
    and "run = resolve_tv_symbol post ticker equity_name mics_arg"
  shows "length (snd run) \<le> 3 \<and>
    snd run = takeWhile (\<lambda>req. answer post req = None) reqs
           @ take 1 (dropWhile (\<lambda>req. answer post req = None) reqs) \<and>
    fst run = (case dropWhile (\<lambda>req. answer post req = None) reqs of
                 [] \<Rightarrow> JStr ticker
               | req # _ \<Rightarrow> the (answer post req)) \<and>
    ((\<forall>req \<in> set reqs. answer post req = None) \<longrightarrow> fst run = JStr ticker) \<and>
    try_scan post field query operation mkts =
      answer post (build_scan_request field query operation mkts) \<and>
    (scan_attempt post (build_scan_request field query operation mkts) = Inl e
       \<longrightarrow> try_scan post field query operation mkts = None) \<and>
    (post req = NetworkError \<or> post req = Response False payload
       \<or> post req = Response True None \<longrightarrow> answer post req = None)"
proof (intro conjI)
  let ?fails = "\<lambda>req. answer post req = None"
  have run: "run = (case dropWhile ?fails reqs of [] \<Rightarrow> JStr ticker
                    | req # _ \<Rightarrow> the (answer post req),
                    takeWhile ?fails reqs @ take 1 (dropWhile ?fails reqs))"
    using assms by (simp add: resolve_tv_symbol_run Let_def)
  show sent: "snd run = takeWhile ?fails reqs @ take 1 (dropWhile ?fails reqs)"
    by (simp add: run)
  show res: "fst run = (case dropWhile ?fails reqs of [] \<Rightarrow> JStr ticker
                    | req # _ \<Rightarrow> the (answer post req))"
    by (simp add: run)
  have "length (takeWhile ?fails reqs @ take 1 (dropWhile ?fails reqs)) \<le> length reqs"
  proof -
    have "length (take 1 (dropWhile ?fails reqs)) \<le> length (dropWhile ?fails reqs)"
      by simp
    moreover have "length (takeWhile ?fails reqs) + length (dropWhile ?fails reqs) = length reqs"
      by (metis length_append takeWhile_dropWhile_id)
    ultimately show ?thesis by simp
  qed
  then show "length (snd run) \<le> 3"
    using length_planned_requests [of ticker equity_name "mics_to_tv_markets mics_arg"] assms(1)
    by (simp add: sent)
  show "(\<forall>req \<in> set reqs. answer post req = None) \<longrightarrow> fst run = JStr ticker"
  proof
    assume "\<forall>req \<in> set reqs. answer post req = None"
    then have "dropWhile ?fails reqs = []" by simp
    then show "fst run = JStr ticker"
      unfolding res by (simp del: dropWhile_eq_Nil_conv)
  qed
  show "try_scan post field query operation mkts =
           answer post (build_scan_request field query operation mkts)"
    by (rule try_scan_answer)
  show "scan_attempt post (build_scan_request field query operation mkts) = Inl e
           \<longrightarrow> try_scan post field query operation mkts = None"
    using raised_is_no_result by blast
  show "post req = NetworkError \<or> post req = Response False payload
           \<or> post req = Response True None \<longrightarrow> answer post req = None"
    by (auto simp: answer_def)
qed

lemma example_markets: "mics_to_tv_markets (Some ''XNAS, XNYS,XLON'') = [''america'', ''uk'']"
  by (simp add: mics_to_tv_markets_def strip_def is_space_def mic_to_tv_market_map_def)

theorem resolve_tv_symbol_three_tiers_witness:
  "resolve_tv_symbol example_scanner ''AAPL'' ''Apple Inc'' (Some ''XNAS, XNYS,XLON'') =
     (JStr ''NASDAQ:AAPL'',
      [build_scan_request ''name'' ''AAPL'' ''equal'' [''america'', ''uk''],
       build_scan_request ''description'' ''Apple Inc'' ''match'' [''america'', ''uk'']]) \<and>
   resolve_tv_symbol (\<lambda>req. NetworkError) ''AAPL'' '''' None =
     (JStr ''AAPL'',
      [build_scan_request ''name'' ''AAPL'' ''equal'' [],
       build_scan_request ''name'' ''AAPL'' ''match'' []])"
proof -
  have first: "resolve_tv_symbol example_scanner ''AAPL'' ''Apple Inc'' (Some ''XNAS, XNYS,XLON'') =
     (JStr ''NASDAQ:AAPL'',
      [build_scan_request ''name'' ''AAPL'' ''equal'' [''america'', ''uk''],
       build_scan_request ''description'' ''Apple Inc'' ''match'' [''america'', ''uk'']])"
    using resolve_tv_symbol_three_tiers [OF refl refl, of example_scanner "''AAPL''"
        "''Apple Inc''" "Some ''XNAS, XNYS,XLON''"]
    by (simp add: prod_eq_iff example_markets planned_requests_def answer_def
        example_scanner_def build_scan_request_def)
  have second: "resolve_tv_symbol (\<lambda>req. NetworkError) ''AAPL'' '''' None =
     (JStr ''AAPL'',
      [build_scan_request ''name'' ''AAPL'' ''equal'' [],
       build_scan_request ''name'' ''AAPL'' ''match'' []])"
    using resolve_tv_symbol_three_tiers [OF refl refl, of "\<lambda>req. NetworkError" "''AAPL''"
        "''''" None]
    by (simp add: prod_eq_iff mics_to_tv_markets_def planned_requests_def answer_def
        build_scan_request_def)
  from first second show ?thesis by simp
qed

end
